theory Spec2Isabelle
  imports Main
begin

section \<open>Resources of the inventory\<close>

text \<open>
  The program (\<^verbatim>\<open>shotty/shotty.py\<close>) reads instances, their volumes and the
  volumes' snapshots from EC2 and prints or changes them. The records below hold the
  attributes the program reads: \<^verbatim>\<open>i.id\<close>, \<^verbatim>\<open>i.state['Name']\<close>,
  \<^verbatim>\<open>i.placement['AvailabilityZone']\<close>, \<^verbatim>\<open>i.tags\<close> (which is \<^verbatim>\<open>None\<close> for an
  untagged instance), \<^verbatim>\<open>i.volumes.all()\<close>, \<^verbatim>\<open>v.snapshots.all()\<close> and so on.
  \<open>start_time\<close> holds the text \<^verbatim>\<open>s.start_time.strftime("%c")\<close> renders.
\<close>

record snapshot =
  snap_id :: string
  snap_state :: string
  progress :: string
  start_time :: string

record volume =
  vol_id :: string
  vol_state :: string
  vol_size :: int
  encrypted :: bool
  vol_snapshots :: "snapshot list"

record ec2_instance =
  inst_id :: string
  instance_type :: string
  availability_zone :: string
  state_name :: string
  public_dns_name :: string
  tags :: "(string \<times> string) list option"
  inst_volumes :: "volume list"

section \<open>Python values and truth\<close>

text \<open>
  \<^verbatim>\<open>--project\<close> and \<^verbatim>\<open>--instance\<close> default to \<^verbatim>\<open>None\<close>; the program tests them
  with \<^verbatim>\<open>if instance:\<close> and \<^verbatim>\<open>not project\<close>, so \<^verbatim>\<open>None\<close> and the empty string
  both count as false.
\<close>

fun truthy :: "string option \<Rightarrow> bool" where
  "truthy None = False"
| "truthy (Some s) = (s \<noteq> [])"

text \<open>
  The values \<^verbatim>\<open>has_pending_snapshot\<close> can return: \<^verbatim>\<open>x and y\<close> is \<^verbatim>\<open>x\<close> itself
  when \<^verbatim>\<open>x\<close> is false, so the result is a list or a boolean.
\<close>

datatype pyval = PyBool bool | PyList "snapshot list"

fun truth :: "pyval \<Rightarrow> bool" where
  "truth (PyBool b) = b"
| "truth (PyList xs) = (xs \<noteq> [])"

text \<open>\<^verbatim>\<open>sep.join(parts)\<close>\<close>

fun join :: "string \<Rightarrow> string list \<Rightarrow> string" where
  "join sep [] = []"
| "join sep [x] = x"
| "join sep (x # y # ys) = x @ sep @ join sep (y # ys)"

text \<open>\<^verbatim>\<open>{t['Key']: t['Value'] for t in ts}\<close>: a later pair overwrites an earlier one.\<close>

definition dict_of :: "(string \<times> string) list \<Rightarrow> (string \<rightharpoonup> string)" where
  "dict_of ts = foldl (\<lambda>d (k, v). d(k \<mapsto> v)) Map.empty ts"

text \<open>\<^verbatim>\<open>d.get(k, default)\<close>\<close>

definition dict_get :: "(string \<rightharpoonup> string) \<Rightarrow> string \<Rightarrow> string \<Rightarrow> string" where
  "dict_get d k dflt = (case d k of None \<Rightarrow> dflt | Some v \<Rightarrow> v)"

text \<open>\<^verbatim>\<open>xs or []\<close> for a list that may be \<^verbatim>\<open>None\<close>\<close>

fun or_empty :: "'a list option \<Rightarrow> 'a list" where
  "or_empty None = []"
| "or_empty (Some xs) = xs"

section \<open>The selector\<close>

text \<open>
  \<^verbatim>\<open>ec2.instances.filter(Filters=filters)\<close> and \<^verbatim>\<open>ec2.instances.all()\<close> build a
  collection; nothing is asked of the service until the collection is iterated.
\<close>

datatype collection = Instances_filter "(string \<times> string list) list" | Instances_all

definition filter_instances :: "string option \<Rightarrow> string option \<Rightarrow> collection" where
  "filter_instances project instance =
     (if truthy instance then Instances_filter [(''instance-id'', [the instance])]
      else if truthy project then Instances_filter [(''tag:Project'', [the project])]
      else Instances_all)"

section \<open>The snapshot guard\<close>

text \<open>
  \<^verbatim>\<open>return snapshots and snapshots[0].state == 'pending'\<close>: the empty list is
  returned as it is, and \<^verbatim>\<open>snapshots[0]\<close> is only read from a list that has one.
\<close>

definition has_pending_snapshot :: "volume \<Rightarrow> pyval" where
  "has_pending_snapshot v =
     (case vol_snapshots v of
        [] \<Rightarrow> PyList []
      | s # older \<Rightarrow> PyBool (snap_state s = ''pending''))"

section \<open>The service, as the program sees it\<close>

text \<open>
  The exceptions of the run. The gate of the mutating commands raises a plain
  \<^verbatim>\<open>Exception\<close>; a request to the service can raise botocore's \<^verbatim>\<open>ClientError\<close>
  (the only one the program catches) or, from a waiter, \<^verbatim>\<open>WaiterError\<close>. Each
  carries its message, \<^verbatim>\<open>str(e)\<close>.
\<close>

datatype botocore_error = ClientError string | WaiterError string

datatype raised = Exception string | Botocore botocore_error

text \<open>
  The global \<^verbatim>\<open>ec2\<close> resource: the instances of the account, and for every request
  that changes or awaits something, whether the service raises on it (by instance or
  volume id). Listings are taken to succeed.
\<close>

record ec2 =
  inventory :: "ec2_instance list"
  stop_error :: "string \<Rightarrow> botocore_error option"
  wait_until_stopped_error :: "string \<Rightarrow> botocore_error option"
  start_error :: "string \<Rightarrow> botocore_error option"
  wait_until_running_error :: "string \<Rightarrow> botocore_error option"
  reboot_error :: "string \<Rightarrow> botocore_error option"
  create_snapshot_error :: "string \<Rightarrow> botocore_error option"

text \<open>
  Modelled from the spec: the Inventory Service's \<^verbatim>\<open>listInstances(filter: {idEquals?,
  tagEquals?})\<close> (sections 4.1 and 6), which is EC2 and not code of this repository. An
  \<^verbatim>\<open>instance-id\<close> filter keeps the instances whose id is one of the values, a
  \<^verbatim>\<open>tag:<key>\<close> filter those carrying that tag with one of the values; an instance
  must pass every filter of the list. The program sends no other filter name.
\<close>

definition matches_filter :: "ec2_instance \<Rightarrow> string \<times> string list \<Rightarrow> bool" where
  "matches_filter i f =
     (case f of (name, vals) \<Rightarrow>
        if name = ''instance-id'' then inst_id i \<in> set vals
        else if take 4 name = ''tag:''
          then list_ex (\<lambda>(k, v). k = drop 4 name \<and> v \<in> set vals) (or_empty (tags i))
        else False)"

definition describe_instances :: "ec2 \<Rightarrow> collection \<Rightarrow> ec2_instance list" where
  "describe_instances e c =
     (case c of
        Instances_all \<Rightarrow> inventory e
      | Instances_filter fs \<Rightarrow> filter (\<lambda>i. list_all (matches_filter i) fs) (inventory e))"

section \<open>Runs: what a command asks of the service and prints, and how it ends\<close>

datatype call =
    Describe_instances collection
  | Describe_volumes string
  | Describe_snapshots string
  | Stop string
  | Wait_until_stopped string
  | Start string
  | Wait_until_running string
  | Reboot string
  | Create_snapshot string string

datatype event = Call call | Print string

text \<open>
  A run is the sequence of requests and printed lines, in order, and the exception that
  ended it (\<open>None\<close> when the command returned).
\<close>

type_synonym run = "event list \<times> raised option"

definition pass :: run where
  "pass = ([], None)"

definition py_print :: "string \<Rightarrow> run" where
  "py_print s = ([Print s], None)"

definition listing :: "call \<Rightarrow> run" where
  "listing c = ([Call c], None)"

definition request :: "call \<Rightarrow> botocore_error option \<Rightarrow> run" where
  "request c r = ([Call c], map_option Botocore r)"

definition raise :: "raised \<Rightarrow> run" where
  "raise x = ([], Some x)"

text \<open>One statement after another: an exception in the first skips the second.\<close>

definition seq :: "run \<Rightarrow> run \<Rightarrow> run" where
  "seq r k = (case snd r of None \<Rightarrow> (fst r @ fst k, snd k) | Some x \<Rightarrow> r)"

fun block :: "run list \<Rightarrow> run" where
  "block [] = pass"
| "block (r # rs) = seq r (block rs)"

text \<open>
  \<^verbatim>\<open>try: r  except botocore.exceptions.ClientError as e: h(str(e))\<close>; any other
  exception passes through.
\<close>

definition try_except_ClientError :: "run \<Rightarrow> (string \<Rightarrow> run) \<Rightarrow> run" where
  "try_except_ClientError r h =
     (case snd r of
        Some (Botocore (ClientError m)) \<Rightarrow> seq (fst r, None) (h m)
      | _ \<Rightarrow> r)"

text \<open>
  \<^verbatim>\<open>for x in xs: body(x)\<close>, for a body that ends by falling through or by
  \<^verbatim>\<open>continue\<close>: an exception in one round ends the loop.
\<close>

fun for_each :: "('a \<Rightarrow> run) \<Rightarrow> 'a list \<Rightarrow> run" where
  "for_each body [] = pass"
| "for_each body (x # xs) = seq (body x) (for_each body xs)"

section \<open>The snapshot orchestrator\<close>

definition gate_message :: string where
  "gate_message = ''Choose a project or use --force option to apply for all instances''"

text \<open>The body of \<^verbatim>\<open>for v in i.volumes.all()\<close> in \<^verbatim>\<open>create_snapshots\<close>.\<close>

definition snapshot_volume :: "ec2 \<Rightarrow> volume \<Rightarrow> run" where
  "snapshot_volume e v =
     seq (listing (Describe_snapshots (vol_id v)))
       (if truth (has_pending_snapshot v)
        then py_print ('' Skipping '' @ vol_id v @ '', snapshot already in progress'')
        else block [
          py_print (''Creating snapshot of '' @ vol_id v),
          try_except_ClientError
            (request (Create_snapshot (vol_id v) ''Created by SnapshotAlyzer 3000'')
               (create_snapshot_error e (vol_id v)))
            (\<lambda>m. py_print ('' Could not snapshot '' @ vol_id v @ ''. '' @ m))])"

text \<open>The body of \<^verbatim>\<open>for i in instances\<close> in \<^verbatim>\<open>create_snapshots\<close>.\<close>

definition snapshot_instance :: "ec2 \<Rightarrow> ec2_instance \<Rightarrow> run" where
  "snapshot_instance e i =
     (let last_state = state_name i in
      block [
        py_print (''Stopping '' @ inst_id i),
        request (Stop (inst_id i)) (stop_error e (inst_id i)),
        request (Wait_until_stopped (inst_id i)) (wait_until_stopped_error e (inst_id i)),
        listing (Describe_volumes (inst_id i)),
        for_each (snapshot_volume e) (inst_volumes i),
        if last_state = ''running''
        then block [
          py_print (''Starting '' @ inst_id i),
          request (Start (inst_id i)) (start_error e (inst_id i)),
          request (Wait_until_running (inst_id i)) (wait_until_running_error e (inst_id i))]
        else pass])"

definition create_snapshots :: "ec2 \<Rightarrow> string option \<Rightarrow> bool \<Rightarrow> string option \<Rightarrow> run" where
  "create_snapshots e project force instance =
     (if \<not> truthy project \<and> \<not> force then raise (Exception gate_message)
      else
        let instances = filter_instances project instance in
        block [
          listing (Describe_instances instances),
          for_each (snapshot_instance e) (describe_instances e instances),
          py_print ''Job's done!''])"

section \<open>Stop, start and reboot\<close>

definition stop_instances :: "ec2 \<Rightarrow> string option \<Rightarrow> bool \<Rightarrow> string option \<Rightarrow> run" where
  "stop_instances e project force instance =
     (if \<not> truthy project \<and> \<not> force then raise (Exception gate_message)
      else
        let instances = filter_instances project instance in
        block [
          listing (Describe_instances instances),
          for_each (\<lambda>i. block [
              py_print (''Stopping '' @ inst_id i @ ''..''),
              try_except_ClientError
                (request (Stop (inst_id i)) (stop_error e (inst_id i)))
                (\<lambda>m. py_print ('' Could not stop '' @ inst_id i @ ''. '' @ m))])
            (describe_instances e instances)])"

definition start_instances :: "ec2 \<Rightarrow> string option \<Rightarrow> bool \<Rightarrow> string option \<Rightarrow> run" where
  "start_instances e project force instance =
     (if \<not> truthy project \<and> \<not> force then raise (Exception gate_message)
      else
        let instances = filter_instances project instance in
        block [
          listing (Describe_instances instances),
          for_each (\<lambda>i. block [
              py_print (''Starting '' @ inst_id i @ ''..''),
              try_except_ClientError
                (request (Start (inst_id i)) (start_error e (inst_id i)))
                (\<lambda>m. py_print ('' Could not start '' @ inst_id i @ ''. '' @ m))])
            (describe_instances e instances)])"

definition reboot_instances :: "ec2 \<Rightarrow> string option \<Rightarrow> bool \<Rightarrow> string option \<Rightarrow> run" where
  "reboot_instances e project force instance =
     (if \<not> truthy project \<and> \<not> force then raise (Exception gate_message)
      else
        let instances = filter_instances project instance in
        block [
          listing (Describe_instances instances),
          for_each (\<lambda>i. block [
              py_print (''Rebooting '' @ inst_id i @ ''..''),
              try_except_ClientError
                (request (Reboot (inst_id i)) (reboot_error e (inst_id i)))
                (\<lambda>m. py_print ('' Could not reboot '' @ inst_id i @ ''. '' @ m))])
            (describe_instances e instances)])"

section \<open>The listings\<close>

definition snapshot_row :: "ec2_instance \<Rightarrow> volume \<Rightarrow> snapshot \<Rightarrow> string" where
  "snapshot_row i v s =
     join '', '' [snap_id s, vol_id v, inst_id i, snap_state s, progress s, start_time s]"

text \<open>
  \<^verbatim>\<open>for s in v.snapshots.all()\<close> in \<^verbatim>\<open>list_snapshots\<close>: the row is printed, then
  \<^verbatim>\<open>if s.state == 'completed' and not list_all: break\<close>.
\<close>

fun for_snapshots :: "bool \<Rightarrow> ec2_instance \<Rightarrow> volume \<Rightarrow> snapshot list \<Rightarrow> run" where
  "for_snapshots list_all' i v [] = pass"
| "for_snapshots list_all' i v (s # ss) =
     seq (py_print (snapshot_row i v s))
       (if snap_state s = ''completed'' \<and> \<not> list_all' then pass
        else for_snapshots list_all' i v ss)"

definition list_snapshots :: "ec2 \<Rightarrow> string option \<Rightarrow> bool \<Rightarrow> string option \<Rightarrow> run" where
  "list_snapshots e project list_all' instance =
     (let instances = filter_instances project instance in
      block [
        listing (Describe_instances instances),
        for_each (\<lambda>i. block [
            listing (Describe_volumes (inst_id i)),
            for_each (\<lambda>v. block [
                listing (Describe_snapshots (vol_id v)),
                for_snapshots list_all' i v (vol_snapshots v)])
              (inst_volumes i)])
          (describe_instances e instances)])"

text \<open>The body of \<^verbatim>\<open>for i in instances\<close> in \<^verbatim>\<open>list_instances\<close>.\<close>

definition instance_row :: "ec2_instance \<Rightarrow> string" where
  "instance_row i =
     (let tags_dict = dict_of (or_empty (tags i)) in
      join '', '' [
        inst_id i,
        instance_type i,
        availability_zone i,
        state_name i,
        public_dns_name i,
        dict_get tags_dict ''Project'' ''<no project>''])"

definition list_instances :: "ec2 \<Rightarrow> string option \<Rightarrow> string option \<Rightarrow> run" where
  "list_instances e project instance =
     (let instances = filter_instances project instance in
      block [
        listing (Describe_instances instances),
        for_each (\<lambda>i. py_print (instance_row i)) (describe_instances e instances)])"

section \<open>Sample inventories\<close>

definition quiet :: "ec2_instance list \<Rightarrow> ec2" where
  "quiet insts = \<lparr> inventory = insts,
     stop_error = (\<lambda>x. None), wait_until_stopped_error = (\<lambda>x. None),
     start_error = (\<lambda>x. None), wait_until_running_error = (\<lambda>x. None),
     reboot_error = (\<lambda>x. None), create_snapshot_error = (\<lambda>x. None) \<rparr>"

definition snap :: "string \<Rightarrow> string \<Rightarrow> snapshot" where
  "snap sid st = \<lparr> snap_id = sid, snap_state = st, progress = ''100%'', start_time = ''t'' \<rparr>"

definition vol :: "string \<Rightarrow> snapshot list \<Rightarrow> volume" where
  "vol vid ss = \<lparr> vol_id = vid, vol_state = ''in-use'', vol_size = 8, encrypted = False,
     vol_snapshots = ss \<rparr>"

definition inst :: "string \<Rightarrow> string \<Rightarrow> (string \<times> string) list option \<Rightarrow> volume list \<Rightarrow> ec2_instance" where
  "inst iid st ts vs = \<lparr> inst_id = iid, instance_type = ''t2.micro'',
     availability_zone = ''us-east-1a'', state_name = st, public_dns_name = [],
     tags = ts, inst_volumes = vs \<rparr>"

definition stop_fails :: "string \<Rightarrow> string \<Rightarrow> ec2_instance list \<Rightarrow> ec2" where
  "stop_fails bad msg insts =
     (quiet insts) \<lparr> stop_error := (\<lambda>x. if x = bad then Some (ClientError msg) else None) \<rparr>"

definition start_fails :: "string \<Rightarrow> string \<Rightarrow> ec2_instance list \<Rightarrow> ec2" where
  "start_fails bad msg insts =
     (quiet insts) \<lparr> start_error := (\<lambda>x. if x = bad then Some (ClientError msg) else None) \<rparr>"

definition create_snapshot_fails :: "string \<Rightarrow> string \<Rightarrow> ec2_instance list \<Rightarrow> ec2" where
  "create_snapshot_fails bad msg insts =
     (quiet insts) \<lparr> create_snapshot_error :=
        (\<lambda>x. if x = bad then Some (ClientError msg) else None) \<rparr>"

section \<open>Reading a run\<close>

text \<open>The volumes \<^verbatim>\<open>create_snapshot\<close> was requested for, in order.\<close>

fun created :: "event list \<Rightarrow> string list" where
  "created [] = []"
| "created (Call (Create_snapshot v d) # evs) = v # created evs"
| "created (ev # evs) = created evs"

text \<open>The instances \<^verbatim>\<open>start\<close> was requested for, in order.\<close>

fun started :: "event list \<Rightarrow> string list" where
  "started [] = []"
| "started (Call (Start i) # evs) = i # started evs"
| "started (ev # evs) = started evs"

text \<open>A run that did not end in the gate's plain \<^verbatim>\<open>Exception\<close>.\<close>

definition service_only :: "run \<Rightarrow> bool" where
  "service_only r = (\<forall>m. snd r \<noteq> Some (Exception m))"

section \<open>Sequencing and loops\<close>

lemmas run_defs = pass_def py_print_def listing_def request_def raise_def

lemmas sample_defs = quiet_def snap_def vol_def inst_def stop_fails_def start_fails_def
  create_snapshot_fails_def

lemma fst_seq: "fst (seq r k) = (case snd r of None \<Rightarrow> fst r @ fst k | Some x \<Rightarrow> fst r)"
  by (simp add: seq_def split: option.splits)

lemma snd_seq: "snd (seq r k) = (case snd r of None \<Rightarrow> snd k | Some x \<Rightarrow> Some x)"
  by (simp add: seq_def split: option.splits)

lemma seq_returns: "snd r = None \<Longrightarrow> seq r k = (fst r @ fst k, snd k)"
  by (simp add: seq_def)

lemma seq_raises: "snd r = Some x \<Longrightarrow> seq r k = r"
  by (simp add: seq_def)

lemma seq_events: "ev \<in> set (fst (seq r k)) \<Longrightarrow> ev \<in> set (fst r) \<or> ev \<in> set (fst k)"
  by (auto simp: fst_seq split: option.splits)

lemma for_each_events:
  "ev \<in> set (fst (for_each body xs)) \<Longrightarrow> \<exists>x \<in> set xs. ev \<in> set (fst (body x))"
proof (induction xs)
  case Nil
  then show ?case by (simp add: pass_def)
next
  case (Cons x xs)
  then show ?case using seq_events [of ev "body x" "for_each body xs"] by auto
qed

lemma for_each_returns:
  "\<forall>x \<in> set xs. snd (body x) = None \<Longrightarrow>
     for_each body xs = (concat (map (\<lambda>x. fst (body x)) xs), None)"
  by (induction xs) (simp_all add: pass_def seq_returns)

section \<open>The gate of the mutating commands\<close>

text \<open>Past the gate, a command can only end in an exception of the service.\<close>

lemma service_only_seq: "service_only r \<Longrightarrow> service_only k \<Longrightarrow> service_only (seq r k)"
  by (auto simp: service_only_def seq_def split: option.splits raised.splits)

lemma service_only_basic:
  "service_only pass" "service_only (py_print s)" "service_only (listing c)"
  "service_only (request c r)"
  by (auto simp: service_only_def run_defs split: option.splits)

lemma service_only_try:
  "service_only r \<Longrightarrow> (\<And>m. service_only (h m)) \<Longrightarrow> service_only (try_except_ClientError r h)"
  by (auto simp: try_except_ClientError_def service_only_def seq_def
      split: option.splits raised.splits botocore_error.splits)

lemma service_only_for_each:
  "(\<And>x. service_only (body x)) \<Longrightarrow> service_only (for_each body xs)"
  by (induction xs) (simp_all add: service_only_basic service_only_seq)

lemma service_only_snapshot_volume: "service_only (snapshot_volume e v)"
  by (simp add: snapshot_volume_def service_only_seq service_only_basic service_only_try)

lemma service_only_snapshot_instance: "service_only (snapshot_instance e i)"
  by (simp add: snapshot_instance_def Let_def service_only_seq service_only_basic
      service_only_for_each service_only_snapshot_volume)

lemma gate_create:
  "(snd (create_snapshots e project force instance) = Some (Exception gate_message))
     = (\<not> truthy project \<and> \<not> force)"
proof (cases "\<not> truthy project \<and> \<not> force")
  case True
  then show ?thesis by (simp add: create_snapshots_def raise_def)
next
  case False
  have "service_only (create_snapshots e project force instance)"
    using False
    by (auto simp add: create_snapshots_def Let_def service_only_seq service_only_basic
      service_only_for_each service_only_snapshot_instance)
  then show ?thesis using False by (auto simp: service_only_def)
qed


lemma gate_stop:
  "(snd (stop_instances e project force instance) = Some (Exception gate_message))
     = (\<not> truthy project \<and> \<not> force)"
proof (cases "\<not> truthy project \<and> \<not> force")
  case True
  then show ?thesis by (simp add: stop_instances_def raise_def)
next
  case False
  have "service_only (stop_instances e project force instance)"
    using False
    by (auto simp add: stop_instances_def Let_def service_only_seq service_only_basic
      service_only_for_each service_only_try)
  then show ?thesis using False by (auto simp: service_only_def)
qed

lemma gate_start:
  "(snd (start_instances e project force instance) = Some (Exception gate_message))
     = (\<not> truthy project \<and> \<not> force)"
proof (cases "\<not> truthy project \<and> \<not> force")
  case True
  then show ?thesis by (simp add: start_instances_def raise_def)
next
  case False
  have "service_only (start_instances e project force instance)"
    using False
    by (auto simp add: start_instances_def Let_def service_only_seq service_only_basic
      service_only_for_each service_only_try)
  then show ?thesis using False by (auto simp: service_only_def)
qed

lemma gate_reboot:
  "(snd (reboot_instances e project force instance) = Some (Exception gate_message))
     = (\<not> truthy project \<and> \<not> force)"
proof (cases "\<not> truthy project \<and> \<not> force")
  case True
  then show ?thesis by (simp add: reboot_instances_def raise_def)
next
  case False
  have "service_only (reboot_instances e project force instance)"
    using False
    by (auto simp add: reboot_instances_def Let_def service_only_seq service_only_basic
      service_only_for_each service_only_try)
  then show ?thesis using False by (auto simp: service_only_def)
qed

lemma gate_silent:
  "\<not> truthy project \<Longrightarrow> \<not> force \<Longrightarrow>
     fst (create_snapshots e project force instance) = [] \<and>
     fst (stop_instances e project force instance) = [] \<and>
     fst (start_instances e project force instance) = [] \<and>
     fst (reboot_instances e project force instance) = []"
  by (simp add: create_snapshots_def stop_instances_def start_instances_def
      reboot_instances_def raise_def)

text \<open>
  C1, as stated, fails: with \<^verbatim>\<open>--instance i-123\<close> and neither \<^verbatim>\<open>--project\<close> nor
  \<^verbatim>\<open>--force\<close> the commands still raise, since the gate reads
  \<^verbatim>\<open>if not project and not force\<close> and never looks at the instance.
\<close>

theorem gate_counterexample:
  "truthy (Some ''i-123'') \<and>
   create_snapshots (quiet [inst ''i-123'' ''running'' None []]) None False (Some ''i-123'')
     = ([], Some (Exception gate_message)) \<and>
   stop_instances (quiet [inst ''i-123'' ''running'' None []]) None False (Some ''i-123'')
     = ([], Some (Exception gate_message))"
  by (simp add: create_snapshots_def stop_instances_def raise_def)

text \<open>
  C1, amended. Each of \<^verbatim>\<open>instances snapshot\<close>, \<^verbatim>\<open>stop\<close>, \<^verbatim>\<open>start\<close> and
  \<^verbatim>\<open>reboot\<close> raises the configuration error exactly when the project is unset (or
  empty) and force is false, whatever the instance id is: a project or
  \<^verbatim>\<open>--force\<close> passes the gate, \<^verbatim>\<open>--instance\<close> alone does not. When the error is
  raised, nothing has been asked of the service and nothing printed.
\<close>

theorem gate_is_project_or_force:
  "((snd (create_snapshots e project force instance) = Some (Exception gate_message))
      = (\<not> truthy project \<and> \<not> force)) \<and>
   ((snd (stop_instances e project force instance) = Some (Exception gate_message))
      = (\<not> truthy project \<and> \<not> force)) \<and>
   ((snd (start_instances e project force instance) = Some (Exception gate_message))
      = (\<not> truthy project \<and> \<not> force)) \<and>
   ((snd (reboot_instances e project force instance) = Some (Exception gate_message))
      = (\<not> truthy project \<and> \<not> force)) \<and>
   (\<not> truthy project \<and> \<not> force \<longrightarrow>
      fst (create_snapshots e project force instance) = [] \<and>
      fst (stop_instances e project force instance) = [] \<and>
      fst (start_instances e project force instance) = [] \<and>
      fst (reboot_instances e project force instance) = [])"
proof -
  have "\<not> truthy project \<and> \<not> force \<longrightarrow>
      fst (create_snapshots e project force instance) = [] \<and>
      fst (stop_instances e project force instance) = [] \<and>
      fst (start_instances e project force instance) = [] \<and>
      fst (reboot_instances e project force instance) = []"
    using gate_silent by blast
  then show ?thesis
    by (simp add: gate_create gate_stop gate_start gate_reboot)
qed

text \<open>
  The gate at four inputs: a project passes, force passes, an instance id alone is
  refused, and so is an empty project.
\<close>

theorem gate_is_project_or_force_witness:
  "snd (create_snapshots (quiet []) (Some ''web'') False None) \<noteq> Some (Exception gate_message) \<and>
   snd (stop_instances (quiet []) None True None) \<noteq> Some (Exception gate_message) \<and>
   snd (start_instances (quiet []) None False (Some ''i-123'')) = Some (Exception gate_message) \<and>
   snd (reboot_instances (quiet []) (Some []) False None) = Some (Exception gate_message) \<and>
   fst (reboot_instances (quiet []) (Some []) False None) = []"
  using gate_is_project_or_force [of "quiet []" "Some ''web''" False None]
    gate_is_project_or_force [of "quiet []" None True None]
    gate_is_project_or_force [of "quiet []" None False "Some ''i-123''"]
    gate_is_project_or_force [of "quiet []" "Some []" False None]
  by simp


section \<open>Properties of the snapshot guard\<close>

text \<open>
  C3. The guard is false (as the caller's \<^verbatim>\<open>if has_pending_snapshot(v):\<close> reads it)
  for a volume with no snapshots; it is true exactly when the first snapshot of the
  listing has state \<^verbatim>\<open>pending\<close>; and it is false when that first snapshot is
  \<^verbatim>\<open>completed\<close> or \<^verbatim>\<open>error\<close>, whatever the older snapshots are.
\<close>

theorem has_pending_snapshot_first_only:
  "(vol_snapshots v = [] \<longrightarrow> \<not> truth (has_pending_snapshot v)) \<and>
   (truth (has_pending_snapshot v) \<longleftrightarrow>
      (\<exists>s older. vol_snapshots v = s # older \<and> snap_state s = ''pending'')) \<and>
   (vol_snapshots v = s # older \<and> (snap_state s = ''completed'' \<or> snap_state s = ''error'')
      \<longrightarrow> \<not> truth (has_pending_snapshot v))"
  by (cases "vol_snapshots v") (auto simp: has_pending_snapshot_def)

text \<open>
  The guard on an empty volume, on one whose newest snapshot is pending above a completed
  one, and on one whose newest snapshot is completed above a pending one.
\<close>

theorem has_pending_snapshot_first_only_witness:
  "vol_snapshots (vol ''v-0'' []) = [] \<and>
   \<not> truth (has_pending_snapshot (vol ''v-0'' [])) \<and>
   truth (has_pending_snapshot (vol ''v-1'' [snap ''s2'' ''pending'', snap ''s1'' ''completed''])) \<and>
   \<not> truth (has_pending_snapshot (vol ''v-2'' [snap ''s2'' ''completed'', snap ''s1'' ''pending'']))"
  using has_pending_snapshot_first_only [of "vol ''v-0'' []"]
    has_pending_snapshot_first_only [of "vol ''v-1'' [snap ''s2'' ''pending'', snap ''s1'' ''completed'']"]
    has_pending_snapshot_first_only [of "vol ''v-2'' [snap ''s2'' ''completed'', snap ''s1'' ''pending'']"
      "snap ''s2'' ''completed''" "[snap ''s1'' ''pending'']"]
  by (simp add: vol_def snap_def)

text \<open>
  C9. For a volume with no snapshots \<^verbatim>\<open>has_pending_snapshot\<close> returns the empty list
  itself, a false value that is not the boolean \<^verbatim>\<open>False\<close>; the result is a boolean
  exactly when the volume has a snapshot.
\<close>

theorem has_pending_snapshot_returns_the_empty_list:
  "(vol_snapshots v = [] \<longrightarrow>
      has_pending_snapshot v = PyList [] \<and> has_pending_snapshot v \<noteq> PyBool False \<and>
      \<not> truth (has_pending_snapshot v)) \<and>
   ((\<exists>b. has_pending_snapshot v = PyBool b) \<longleftrightarrow> vol_snapshots v \<noteq> [])"
  by (cases "vol_snapshots v") (auto simp: has_pending_snapshot_def)

text \<open>The value on an empty volume, and on a volume with one completed snapshot.\<close>

theorem has_pending_snapshot_returns_the_empty_list_witness:
  "has_pending_snapshot (vol ''v-0'' []) = PyList [] \<and>
   has_pending_snapshot (vol ''v-0'' []) \<noteq> PyBool False \<and>
   has_pending_snapshot (vol ''v-1'' [snap ''s1'' ''completed'']) = PyBool False"
  using has_pending_snapshot_returns_the_empty_list [of "vol ''v-0'' []"]
    has_pending_snapshot_returns_the_empty_list [of "vol ''v-1'' [snap ''s1'' ''completed'']"]
  by (auto simp add: vol_def snap_def has_pending_snapshot_def)

section \<open>The selector and the listings\<close>

lemma describe_by_id:
  "describe_instances e (Instances_filter [(''instance-id'', [iid])])
     = filter (\<lambda>i. inst_id i = iid) (inventory e)"
  by (simp add: describe_instances_def matches_filter_def)

lemma at_most_one_with_id:
  "distinct (map f xs) \<Longrightarrow> length (filter (\<lambda>x. f x = a) xs) \<le> 1"
proof (induction xs)
  case Nil
  then show ?case by simp
next
  case (Cons x xs)
  show ?case
  proof (cases "f x = a")
    case True
    with Cons.prems have "\<forall>y \<in> set xs. f y \<noteq> a" by (force simp: image_iff)
    then have "filter (\<lambda>x. f x = a) xs = []" by (simp add: filter_empty_conv)
    with True show ?thesis by simp
  next
    case False
    with Cons show ?thesis by simp
  qed
qed

text \<open>
  C7. When an instance id is given (a non-empty string, which is what \<^verbatim>\<open>if instance:\<close>
  tests), the selector asks for that id alone, whatever the project is: the filter list
  holds the \<^verbatim>\<open>instance-id\<close> filter and nothing else. Every instance the service
  returns for it has that id, and there is at most one, instance ids being unique in the
  inventory. When neither an instance id nor a project is given, the selector asks for
  the whole inventory.
\<close>

theorem instance_id_takes_precedence:
  "(iid \<noteq> [] \<longrightarrow>
      filter_instances project (Some iid) = Instances_filter [(''instance-id'', [iid])] \<and>
      (\<forall>i \<in> set (describe_instances e (filter_instances project (Some iid))). inst_id i = iid) \<and>
      (distinct (map inst_id (inventory e)) \<longrightarrow>
         length (describe_instances e (filter_instances project (Some iid))) \<le> 1)) \<and>
   (\<not> truthy project \<and> \<not> truthy instance \<longrightarrow>
      filter_instances project instance = Instances_all \<and>
      describe_instances e (filter_instances project instance) = inventory e)"
proof -
  have "filter_instances project (Some iid) = Instances_filter [(''instance-id'', [iid])]"
    if "iid \<noteq> []"
    using that by (simp add: filter_instances_def)
  moreover have "length (filter (\<lambda>i. inst_id i = iid) (inventory e)) \<le> 1"
    if "distinct (map inst_id (inventory e))"
    using that by (rule at_most_one_with_id)
  moreover have "filter_instances project instance = Instances_all"
    if "\<not> truthy project \<and> \<not> truthy instance"
    using that by (simp add: filter_instances_def)
  ultimately show ?thesis
    by (simp add: describe_by_id) (simp add: describe_instances_def)
qed

text \<open>
  An inventory of two instances: asking for \<^verbatim>\<open>i-2\<close> together with a project that only
  \<^verbatim>\<open>i-1\<close> carries returns \<^verbatim>\<open>i-2\<close>; asking with neither returns both.
\<close>

theorem instance_id_takes_precedence_witness:
  "filter_instances (Some ''web'') (Some ''i-2'') = Instances_filter [(''instance-id'', [''i-2''])] \<and>
   describe_instances
      (quiet [inst ''i-1'' ''running'' (Some [(''Project'', ''web'')]) [],
              inst ''i-2'' ''stopped'' None []])
      (filter_instances (Some ''web'') (Some ''i-2''))
     = [inst ''i-2'' ''stopped'' None []] \<and>
   describe_instances
      (quiet [inst ''i-1'' ''running'' (Some [(''Project'', ''web'')]) [],
              inst ''i-2'' ''stopped'' None []])
      (filter_instances None None)
     = [inst ''i-1'' ''running'' (Some [(''Project'', ''web'')]) [],
        inst ''i-2'' ''stopped'' None []]"
  using instance_id_takes_precedence [of "''i-2''" "Some ''web''"
      "quiet [inst ''i-1'' ''running'' (Some [(''Project'', ''web'')]) [],
              inst ''i-2'' ''stopped'' None []]" None]
  by (simp add: sample_defs filter_instances_def describe_instances_def matches_filter_def)

lemma for_snapshots_all:
  "for_snapshots True i v ss = (map (\<lambda>s. Print (snapshot_row i v s)) ss, None)"
  by (induction ss) (simp_all add: pass_def py_print_def seq_def)

lemma for_snapshots_default:
  "for_snapshots False i v ss =
     (map (\<lambda>s. Print (snapshot_row i v s))
        (takeWhile (\<lambda>s. snap_state s \<noteq> ''completed'') ss
         @ take 1 (dropWhile (\<lambda>s. snap_state s \<noteq> ''completed'') ss)), None)"
  by (induction ss) (simp_all add: pass_def py_print_def seq_def)

text \<open>
  C8. For every volume, the default mode of the snapshot listing prints the snapshots in
  the order of the listing, up to and including the first one whose state is
  \<^verbatim>\<open>completed\<close>, and stops there; the \<^verbatim>\<open>--all\<close> mode prints every snapshot in
  listing order. For snapshots s1 (completed), s2 (pending), s3 (completed) the default
  mode prints s1 only and the all mode prints s1, s2, s3.
\<close>

theorem list_snapshots_stops_at_completed:
  "for_snapshots False i v ss =
     (map (\<lambda>s. Print (snapshot_row i v s))
        (takeWhile (\<lambda>s. snap_state s \<noteq> ''completed'') ss
         @ take 1 (dropWhile (\<lambda>s. snap_state s \<noteq> ''completed'') ss)), None) \<and>
   for_snapshots True i v ss = (map (\<lambda>s. Print (snapshot_row i v s)) ss, None) \<and>
   (snap_state s1 = ''completed'' \<and> snap_state s2 = ''pending'' \<and> snap_state s3 = ''completed''
      \<longrightarrow> for_snapshots False i v [s1, s2, s3] = ([Print (snapshot_row i v s1)], None) \<and>
          for_snapshots True i v [s1, s2, s3] =
            ([Print (snapshot_row i v s1), Print (snapshot_row i v s2),
              Print (snapshot_row i v s3)], None))"
  by (simp add: for_snapshots_all for_snapshots_default pass_def py_print_def seq_def)

text \<open>The whole command on one instance with one volume holding s1, s2, s3.\<close>

theorem list_snapshots_stops_at_completed_witness:
  "list_snapshots
      (quiet [inst ''i-1'' ''running'' None
         [vol ''v-1'' [snap ''s1'' ''completed'', snap ''s2'' ''pending'', snap ''s3'' ''completed'']]])
      None False None
     = ([Call (Describe_instances Instances_all), Call (Describe_volumes ''i-1''),
         Call (Describe_snapshots ''v-1''),
         Print ''s1, v-1, i-1, completed, 100%, t''], None) \<and>
   list_snapshots
      (quiet [inst ''i-1'' ''running'' None
         [vol ''v-1'' [snap ''s1'' ''completed'', snap ''s2'' ''pending'', snap ''s3'' ''completed'']]])
      None True None
     = ([Call (Describe_instances Instances_all), Call (Describe_volumes ''i-1''),
         Call (Describe_snapshots ''v-1''),
         Print ''s1, v-1, i-1, completed, 100%, t'',
         Print ''s2, v-1, i-1, pending, 100%, t'',
         Print ''s3, v-1, i-1, completed, 100%, t''], None)"
  using list_snapshots_stops_at_completed [of
      "inst ''i-1'' ''running'' None
         [vol ''v-1'' [snap ''s1'' ''completed'', snap ''s2'' ''pending'', snap ''s3'' ''completed'']]"
      "vol ''v-1'' [snap ''s1'' ''completed'', snap ''s2'' ''pending'', snap ''s3'' ''completed'']"
      "[snap ''s1'' ''completed'', snap ''s2'' ''pending'', snap ''s3'' ''completed'']"
      "snap ''s1'' ''completed''" "snap ''s2'' ''pending''" "snap ''s3'' ''completed''"]
  by (simp add: list_snapshots_def filter_instances_def describe_instances_def sample_defs
      run_defs seq_def snapshot_row_def)

lemma dom_foldl_update:
  "dom (foldl (\<lambda>d (k, v). d(k \<mapsto> v)) m ts) = dom m \<union> fst ` set ts"
  by (induction ts arbitrary: m) (auto split: prod.splits)

lemma dict_of_no_key: "k \<notin> fst ` set ts \<Longrightarrow> dict_of ts k = None"
  using dom_foldl_update [of Map.empty ts] by (auto simp: dict_of_def)

lemma for_each_print:
  "for_each (\<lambda>x. py_print (f x)) xs = (map (\<lambda>x. Print (f x)) xs, None)"
  by (induction xs) (simp_all add: pass_def py_print_def seq_def)

text \<open>
  C10. The instance listing prints one row for every selected instance, in order, and
  never raises, also for an instance whose \<^verbatim>\<open>tags\<close> is \<^verbatim>\<open>None\<close>
  (\<^verbatim>\<open>i.tags or []\<close>); the project column of an instance with no tags or no
  \<^verbatim>\<open>Project\<close> key is \<^verbatim>\<open><no project>\<close>.
\<close>

theorem list_instances_tolerates_missing_tags:
  "list_instances e project instance =
     (Call (Describe_instances (filter_instances project instance))
        # map (\<lambda>i. Print (instance_row i))
            (describe_instances e (filter_instances project instance)), None) \<and>
   (tags i = None \<or> ''Project'' \<notin> fst ` set (or_empty (tags i)) \<longrightarrow>
      instance_row i =
        join '', '' [inst_id i, instance_type i, availability_zone i, state_name i,
          public_dns_name i, ''<no project>''])"
proof -
  have "dict_of (or_empty (tags i)) ''Project'' = None"
    if "tags i = None \<or> ''Project'' \<notin> fst ` set (or_empty (tags i))"
    using that by (auto simp: dict_of_no_key)
  then show ?thesis
    by (simp add: list_instances_def Let_def for_each_print listing_def seq_def pass_def
        instance_row_def dict_get_def)
qed

text \<open>
  Three instances: one with no tags at all, one tagged without a project, one with a
  project.
\<close>

theorem list_instances_tolerates_missing_tags_witness:
  "list_instances
      (quiet [inst ''i-1'' ''running'' None [],
              inst ''i-2'' ''stopped'' (Some [(''Name'', ''db'')]) [],
              inst ''i-3'' ''stopped'' (Some [(''Project'', ''web'')]) []]) None None
     = ([Call (Describe_instances Instances_all),
         Print ''i-1, t2.micro, us-east-1a, running, , <no project>'',
         Print ''i-2, t2.micro, us-east-1a, stopped, , <no project>'',
         Print ''i-3, t2.micro, us-east-1a, stopped, , web''], None)"
  using list_instances_tolerates_missing_tags [of
      "quiet [inst ''i-1'' ''running'' None [],
              inst ''i-2'' ''stopped'' (Some [(''Name'', ''db'')]) [],
              inst ''i-3'' ''stopped'' (Some [(''Project'', ''web'')]) []]" None None
      "inst ''i-1'' ''running'' None []"]
    list_instances_tolerates_missing_tags [of
      "quiet [inst ''i-1'' ''running'' None [],
              inst ''i-2'' ''stopped'' (Some [(''Name'', ''db'')]) [],
              inst ''i-3'' ''stopped'' (Some [(''Project'', ''web'')]) []]" None None
      "inst ''i-2'' ''stopped'' (Some [(''Name'', ''db'')]) []"]
  by (simp add: sample_defs filter_instances_def describe_instances_def instance_row_def
      dict_of_def dict_get_def)

section \<open>The orchestrator: what the loops request\<close>

text \<open>One round of the volume loop, by what the guard and the service answer.\<close>

lemma created_append: "created (xs @ ys) = created xs @ created ys"
  by (induction xs rule: created.induct) simp_all

lemma started_append: "started (xs @ ys) = started xs @ started ys"
  by (induction xs rule: started.induct) simp_all

lemma snapshot_volume_skips:
  "truth (has_pending_snapshot v) \<Longrightarrow>
     snapshot_volume e v =
       ([Call (Describe_snapshots (vol_id v)),
         Print ('' Skipping '' @ vol_id v @ '', snapshot already in progress'')], None)"
  by (simp add: snapshot_volume_def seq_def listing_def py_print_def)

lemma snapshot_volume_creates:
  "\<not> truth (has_pending_snapshot v) \<Longrightarrow> create_snapshot_error e (vol_id v) = None \<Longrightarrow>
     snapshot_volume e v =
       ([Call (Describe_snapshots (vol_id v)),
         Print (''Creating snapshot of '' @ vol_id v),
         Call (Create_snapshot (vol_id v) ''Created by SnapshotAlyzer 3000'')], None)"
  by (simp add: snapshot_volume_def seq_def try_except_ClientError_def run_defs)

lemma snapshot_volume_reports:
  "\<not> truth (has_pending_snapshot v) \<Longrightarrow>
   create_snapshot_error e (vol_id v) = Some (ClientError m) \<Longrightarrow>
     snapshot_volume e v =
       ([Call (Describe_snapshots (vol_id v)),
         Print (''Creating snapshot of '' @ vol_id v),
         Call (Create_snapshot (vol_id v) ''Created by SnapshotAlyzer 3000''),
         Print ('' Could not snapshot '' @ vol_id v @ ''. '' @ m)], None)"
  by (simp add: snapshot_volume_def seq_def try_except_ClientError_def run_defs)

lemma snapshot_volume_raises:
  "\<not> truth (has_pending_snapshot v) \<Longrightarrow>
   create_snapshot_error e (vol_id v) = Some (WaiterError m) \<Longrightarrow>
     snapshot_volume e v =
       ([Call (Describe_snapshots (vol_id v)),
         Print (''Creating snapshot of '' @ vol_id v),
         Call (Create_snapshot (vol_id v) ''Created by SnapshotAlyzer 3000'')],
        Some (Botocore (WaiterError m)))"
  by (simp add: snapshot_volume_def seq_def try_except_ClientError_def run_defs)

lemma snapshot_volume_cases:
  obtains (skip) "truth (has_pending_snapshot v)"
  | (ok) "\<not> truth (has_pending_snapshot v)" "create_snapshot_error e (vol_id v) = None"
  | (client) m where "\<not> truth (has_pending_snapshot v)"
      "create_snapshot_error e (vol_id v) = Some (ClientError m)"
  | (other) m where "\<not> truth (has_pending_snapshot v)"
      "create_snapshot_error e (vol_id v) = Some (WaiterError m)"
proof (cases "truth (has_pending_snapshot v)")
  case True
  then show ?thesis by (rule skip)
next
  case False
  show ?thesis
  proof (cases "create_snapshot_error e (vol_id v)")
    case None
    with False show ?thesis by (rule ok)
  next
    case (Some err)
    with False show ?thesis by (cases err) (auto intro: client other)
  qed
qed

lemma snapshot_volume_created:
  "created (fst (snapshot_volume e v)) = (if truth (has_pending_snapshot v) then [] else [vol_id v])"
  by (rule snapshot_volume_cases [where v = v and e = e])
    (simp_all add: snapshot_volume_skips snapshot_volume_creates snapshot_volume_reports
      snapshot_volume_raises)

lemma snapshot_volume_create_event:
  "Call (Create_snapshot x d) \<in> set (fst (snapshot_volume e v)) \<Longrightarrow>
     vol_id v = x \<and> \<not> truth (has_pending_snapshot v)"
  by (rule snapshot_volume_cases [where v = v and e = e])
    (auto simp add: snapshot_volume_skips snapshot_volume_creates snapshot_volume_reports
      snapshot_volume_raises)

lemma snapshot_volume_no_start:
  "started (fst (snapshot_volume e v)) = []"
  by (rule snapshot_volume_cases [where v = v and e = e])
    (simp_all add: snapshot_volume_skips snapshot_volume_creates snapshot_volume_reports
      snapshot_volume_raises)

text \<open>Runs that return, and their requests.\<close>

lemma block_events:
  "ev \<in> set (fst (block rs)) \<Longrightarrow> \<exists>r \<in> set rs. ev \<in> set (fst r)"
proof (induction rs)
  case Nil
  then show ?case by (simp add: pass_def)
next
  case (Cons r rs)
  then show ?case using seq_events [of ev r "block rs"] by auto
qed

lemma seq_completed: "snd (seq r k) = None \<longleftrightarrow> snd r = None \<and> snd k = None"
  by (simp add: seq_def split: option.splits)

lemma for_each_completed:
  "snd (for_each body xs) = None \<longleftrightarrow> (\<forall>x \<in> set xs. snd (body x) = None)"
  by (induction xs) (simp_all add: pass_def seq_completed)

lemma for_each_trace:
  "snd (for_each body xs) = None \<Longrightarrow>
     fst (for_each body xs) = concat (map (\<lambda>x. fst (body x)) xs)"
  by (simp add: for_each_completed for_each_returns)

lemma created_concat: "created (concat xss) = concat (map created xss)"
  by (induction xss) (simp_all add: created_append)

lemma started_concat: "started (concat xss) = concat (map started xss)"
  by (induction xss) (simp_all add: started_append)

lemma concat_singletons:
  "concat (map (\<lambda>x. if P x then [] else [f x]) xs) = map f (filter (\<lambda>x. \<not> P x) xs)"
  by (induction xs) simp_all

lemma concat_singletons_pos:
  "concat (map (\<lambda>x. if P x then [f x] else []) xs) = map f (filter P xs)"
  by (induction xs) simp_all

text \<open>The volume loop.\<close>

lemma snapshot_volumes_create_event:
  "Call (Create_snapshot x d) \<in> set (fst (for_each (snapshot_volume e) vs)) \<Longrightarrow>
     \<exists>v \<in> set vs. vol_id v = x \<and> \<not> truth (has_pending_snapshot v)"
  using for_each_events [of "Call (Create_snapshot x d)" "snapshot_volume e" vs]
    snapshot_volume_create_event [of x d e]
  by blast

lemma snapshot_volumes_no_start:
  "Call (Start x) \<notin> set (fst (for_each (snapshot_volume e) vs))"
proof
  assume "Call (Start x) \<in> set (fst (for_each (snapshot_volume e) vs))"
  then obtain v where "Call (Start x) \<in> set (fst (snapshot_volume e v))"
    using for_each_events by blast
  then show False
    by (rule_tac snapshot_volume_cases [where v = v and e = e])
      (simp_all add: snapshot_volume_skips snapshot_volume_creates snapshot_volume_reports
        snapshot_volume_raises)
qed

lemma snapshot_volume_client_errors:
  assumes "\<forall>x err. create_snapshot_error e x = Some err \<longrightarrow> (\<exists>m. err = ClientError m)"
  shows "snd (snapshot_volume e v) = None"
proof (rule snapshot_volume_cases [where v = v and e = e])
  fix m
  assume "\<not> truth (has_pending_snapshot v)"
    and "create_snapshot_error e (vol_id v) = Some (WaiterError m)"
  with assms show ?thesis by fastforce
qed (simp_all add: snapshot_volume_skips snapshot_volume_creates snapshot_volume_reports)

lemma snapshot_volumes_client_errors:
  assumes "\<forall>x err. create_snapshot_error e x = Some err \<longrightarrow> (\<exists>m. err = ClientError m)"
  shows "snd (for_each (snapshot_volume e) vs) = None"
    and "created (fst (for_each (snapshot_volume e) vs))
           = map vol_id (filter (\<lambda>v. \<not> truth (has_pending_snapshot v)) vs)"
proof -
  show fin: "snd (for_each (snapshot_volume e) vs) = None"
    using assms by (simp add: for_each_completed snapshot_volume_client_errors)
  show "created (fst (for_each (snapshot_volume e) vs))
           = map vol_id (filter (\<lambda>v. \<not> truth (has_pending_snapshot v)) vs)"
    by (simp add: for_each_trace [OF fin] created_concat comp_def snapshot_volume_created
        concat_singletons)
qed

lemma snapshot_volumes_report:
  assumes "\<forall>x err. create_snapshot_error e x = Some err \<longrightarrow> (\<exists>m. err = ClientError m)"
    and "v \<in> set vs" and "\<not> truth (has_pending_snapshot v)"
    and "create_snapshot_error e (vol_id v) = Some (ClientError m)"
  shows "Print ('' Could not snapshot '' @ vol_id v @ ''. '' @ m)
           \<in> set (fst (for_each (snapshot_volume e) vs))"
proof -
  have "snd (for_each (snapshot_volume e) vs) = None"
    using assms(1) by (rule snapshot_volumes_client_errors)
  then have "fst (for_each (snapshot_volume e) vs)
      = concat (map (\<lambda>x. fst (snapshot_volume e x)) vs)"
    by (rule for_each_trace)
  moreover have "Print ('' Could not snapshot '' @ vol_id v @ ''. '' @ m)
      \<in> set (fst (snapshot_volume e v))"
    using assms(3,4) by (simp add: snapshot_volume_reports)
  ultimately show ?thesis using assms(2) by auto
qed


text \<open>The instance loop.\<close>

lemma snapshot_instance_create_event:
  assumes "Call (Create_snapshot x d) \<in> set (fst (snapshot_instance e i))"
  shows "\<exists>v \<in> set (inst_volumes i). vol_id v = x \<and> \<not> truth (has_pending_snapshot v)"
proof -
  from assms obtain r where
    "r \<in> set [py_print (''Stopping '' @ inst_id i),
        request (Stop (inst_id i)) (stop_error e (inst_id i)),
        request (Wait_until_stopped (inst_id i)) (wait_until_stopped_error e (inst_id i)),
        listing (Describe_volumes (inst_id i)),
        for_each (snapshot_volume e) (inst_volumes i),
        if state_name i = ''running''
        then block [
          py_print (''Starting '' @ inst_id i),
          request (Start (inst_id i)) (start_error e (inst_id i)),
          request (Wait_until_running (inst_id i)) (wait_until_running_error e (inst_id i))]
        else pass]"
    and "Call (Create_snapshot x d) \<in> set (fst r)"
    unfolding snapshot_instance_def Let_def by (blast dest: block_events)
  then have "Call (Create_snapshot x d) \<in> set (fst (for_each (snapshot_volume e) (inst_volumes i)))"
    by (auto simp: run_defs fst_seq split: if_splits option.splits)
  then show ?thesis by (rule snapshot_volumes_create_event)
qed

lemma snapshot_instance_start_event:
  assumes "Call (Start x) \<in> set (fst (snapshot_instance e i))"
  shows "inst_id i = x \<and> state_name i = ''running''"
proof -
  from assms obtain r where
    "r \<in> set [py_print (''Stopping '' @ inst_id i),
        request (Stop (inst_id i)) (stop_error e (inst_id i)),
        request (Wait_until_stopped (inst_id i)) (wait_until_stopped_error e (inst_id i)),
        listing (Describe_volumes (inst_id i)),
        for_each (snapshot_volume e) (inst_volumes i),
        if state_name i = ''running''
        then block [
          py_print (''Starting '' @ inst_id i),
          request (Start (inst_id i)) (start_error e (inst_id i)),
          request (Wait_until_running (inst_id i)) (wait_until_running_error e (inst_id i))]
        else pass]"
    and "Call (Start x) \<in> set (fst r)"
    unfolding snapshot_instance_def Let_def by (blast dest: block_events)
  then show ?thesis
    by (auto simp: run_defs fst_seq snapshot_volumes_no_start split: if_splits option.splits)
qed

lemma snapshot_instance_reached:
  assumes "stop_error e (inst_id i) = None"
    and "wait_until_stopped_error e (inst_id i) = None"
    and "snd (for_each (snapshot_volume e) (inst_volumes i)) = None"
  shows "fst (snapshot_instance e i) =
     [Print (''Stopping '' @ inst_id i), Call (Stop (inst_id i)),
      Call (Wait_until_stopped (inst_id i)), Call (Describe_volumes (inst_id i))]
     @ fst (for_each (snapshot_volume e) (inst_volumes i))
     @ (if state_name i = ''running''
        then Print (''Starting '' @ inst_id i) # Call (Start (inst_id i))
          # (if start_error e (inst_id i) = None then [Call (Wait_until_running (inst_id i))]
             else [])
        else [])"
  using assms
  by (simp add: snapshot_instance_def Let_def run_defs seq_def split: option.splits)

lemma snapshot_instance_started:
  assumes "snd (snapshot_instance e i) = None"
  shows "started (fst (snapshot_instance e i))
     = (if state_name i = ''running'' then [inst_id i] else [])"
proof -
  have vols: "snd (for_each (snapshot_volume e) (inst_volumes i)) = None"
    and stop: "stop_error e (inst_id i) = None"
    and wait: "wait_until_stopped_error e (inst_id i) = None"
    using assms
    by (simp_all add: snapshot_instance_def Let_def seq_completed run_defs)
  have "started (fst (for_each (snapshot_volume e) (inst_volumes i))) = []"
    by (simp add: for_each_trace [OF vols] started_concat snapshot_volume_no_start)
  then show ?thesis
    by (simp add: snapshot_instance_reached [OF stop wait vols] started_append)
qed

lemma snapshot_instance_quiet_service:
  assumes "stop_error e (inst_id i) = None"
    and "wait_until_stopped_error e (inst_id i) = None"
    and "start_error e (inst_id i) = None"
    and "wait_until_running_error e (inst_id i) = None"
    and "\<forall>x err. create_snapshot_error e x = Some err \<longrightarrow> (\<exists>m. err = ClientError m)"
  shows "snd (snapshot_instance e i) = None"
    and "created (fst (snapshot_instance e i))
           = map vol_id (filter (\<lambda>v. \<not> truth (has_pending_snapshot v)) (inst_volumes i))"
proof -
  note vols = snapshot_volumes_client_errors [OF assms(5), of "inst_volumes i"]
  show "snd (snapshot_instance e i) = None"
    using assms(1-4) vols(1)
    by (simp add: snapshot_instance_def Let_def seq_completed run_defs)
  show "created (fst (snapshot_instance e i))
           = map vol_id (filter (\<lambda>v. \<not> truth (has_pending_snapshot v)) (inst_volumes i))"
    by (simp add: snapshot_instance_reached [OF assms(1,2) vols(1)] created_append vols(2))
qed

section \<open>Properties of the snapshot orchestrator\<close>

lemma create_snapshots_passed:
  "truthy project \<or> force \<Longrightarrow>
     create_snapshots e project force instance =
       seq (listing (Describe_instances (filter_instances project instance)))
         (seq (for_each (snapshot_instance e)
                 (describe_instances e (filter_instances project instance)))
            (py_print ''Job's done!''))"
  by (auto simp: create_snapshots_def Let_def pass_def seq_def py_print_def split: option.splits)

lemma create_snapshots_events:
  assumes "ev \<in> set (fst (create_snapshots e project force instance))"
  shows "ev = Call (Describe_instances (filter_instances project instance)) \<or>
     ev = Print ''Job's done!'' \<or>
     (\<exists>i \<in> set (describe_instances e (filter_instances project instance)).
        ev \<in> set (fst (snapshot_instance e i)))"
proof (cases "truthy project \<or> force")
  case True
  from assms have "ev \<in> set (fst (listing (Describe_instances (filter_instances project instance))))
      \<or> ev \<in> set (fst (for_each (snapshot_instance e)
                 (describe_instances e (filter_instances project instance))))
      \<or> ev \<in> set (fst (py_print ''Job's done!''))"
    unfolding create_snapshots_passed [OF True] by (blast dest: seq_events)
  then show ?thesis
    by (auto simp: listing_def py_print_def dest: for_each_events)
next
  case False
  with assms show ?thesis by (simp add: create_snapshots_def raise_def)
qed

lemma create_snapshots_create_event:
  assumes "Call (Create_snapshot x d) \<in> set (fst (create_snapshots e project force instance))"
  shows "\<exists>i \<in> set (describe_instances e (filter_instances project instance)).
     \<exists>v \<in> set (inst_volumes i). vol_id v = x \<and> \<not> truth (has_pending_snapshot v)"
  using create_snapshots_events [OF assms] snapshot_instance_create_event [of x d e]
  by blast

lemma create_snapshots_start_event:
  assumes "Call (Start x) \<in> set (fst (create_snapshots e project force instance))"
  shows "\<exists>i \<in> set (describe_instances e (filter_instances project instance)).
     inst_id i = x \<and> state_name i = ''running''"
  using create_snapshots_events [OF assms] snapshot_instance_start_event [of x e]
  by blast

lemma created_mem: "x \<in> set (created evs) \<Longrightarrow> \<exists>d. Call (Create_snapshot x d) \<in> set evs"
  by (induction evs rule: created.induct) auto

lemma same_id_same_volume:
  assumes "distinct (map vol_id vs)" and "v \<in> set vs" and "w \<in> set vs"
    and "vol_id v = vol_id w"
  shows "v = w"
  using assms by (meson distinct_map inj_onD)

text \<open>
  C4. Take a run of \<^verbatim>\<open>instances snapshot\<close> and a volume of a selected instance for
  which the guard reports a pending snapshot. No \<^verbatim>\<open>create_snapshot\<close> request for
  that volume is issued anywhere in the run, whatever the description; the round of the
  volume loop for it is the listing of its snapshots and the line saying it is skipped,
  after which the loop goes on with the remaining volumes. Volume ids are taken to be
  unique among the volumes of the selected instances (a volume belongs to one
  instance), so that a request names one volume.
\<close>

theorem pending_volume_is_never_snapshotted:
  assumes "distinct (map vol_id
      (concat (map inst_volumes (describe_instances e (filter_instances project instance)))))"
    and "i \<in> set (describe_instances e (filter_instances project instance))"
    and "v \<in> set (inst_volumes i)"
    and "truth (has_pending_snapshot v)"
  shows "Call (Create_snapshot (vol_id v) d)
           \<notin> set (fst (create_snapshots e project force instance)) \<and>
         vol_id v \<notin> set (created (fst (create_snapshots e project force instance))) \<and>
         for_each (snapshot_volume e) (v # rest) =
           ([Call (Describe_snapshots (vol_id v)),
             Print ('' Skipping '' @ vol_id v @ '', snapshot already in progress'')]
            @ fst (for_each (snapshot_volume e) rest),
            snd (for_each (snapshot_volume e) rest))"
proof -
  let ?all = "concat (map inst_volumes (describe_instances e (filter_instances project instance)))"
  have v_in: "v \<in> set ?all" using assms(2,3) by auto
  have no_event: "Call (Create_snapshot (vol_id v) d')
      \<notin> set (fst (create_snapshots e project force instance))" for d'
  proof
    assume "Call (Create_snapshot (vol_id v) d')
      \<in> set (fst (create_snapshots e project force instance))"
    then obtain j w where "j \<in> set (describe_instances e (filter_instances project instance))"
      and "w \<in> set (inst_volumes j)" and same: "vol_id w = vol_id v"
      and free: "\<not> truth (has_pending_snapshot w)"
      using create_snapshots_create_event by blast
    then have "w \<in> set ?all" by auto
    with assms(1) v_in same have "v = w" by (metis same_id_same_volume)
    with free assms(4) show False by simp
  qed
  then have "vol_id v \<notin> set (created (fst (create_snapshots e project force instance)))"
    using created_mem by blast
  moreover have "for_each (snapshot_volume e) (v # rest) =
           ([Call (Describe_snapshots (vol_id v)),
             Print ('' Skipping '' @ vol_id v @ '', snapshot already in progress'')]
            @ fst (for_each (snapshot_volume e) rest),
            snd (for_each (snapshot_volume e) rest))"
    using assms(4) by (simp add: snapshot_volume_skips seq_def)
  ultimately show ?thesis using no_event by blast
qed


text \<open>
  The spec's scenario: instance \<^verbatim>\<open>i-123\<close> with volume \<^verbatim>\<open>v-1\<close> (no snapshots) and
  \<^verbatim>\<open>v-2\<close> (one pending snapshot); only \<^verbatim>\<open>v-1\<close> is snapshotted.
\<close>

theorem pending_volume_is_never_snapshotted_witness:
  "truth (has_pending_snapshot (vol ''v-2'' [snap ''s-1'' ''pending''])) \<and>
   Call (Create_snapshot ''v-2'' ''Created by SnapshotAlyzer 3000'')
     \<notin> set (fst (create_snapshots
         (quiet [inst ''i-123'' ''running'' None
            [vol ''v-1'' [], vol ''v-2'' [snap ''s-1'' ''pending'']]])
         None False (Some ''i-123''))) \<and>
   created (fst (create_snapshots
         (quiet [inst ''i-123'' ''running'' None
            [vol ''v-1'' [], vol ''v-2'' [snap ''s-1'' ''pending'']]])
         (Some ''web'') False (Some ''i-123''))) = [''v-1'']"
  using pending_volume_is_never_snapshotted [of
      "quiet [inst ''i-123'' ''running'' None
         [vol ''v-1'' [], vol ''v-2'' [snap ''s-1'' ''pending'']]]"
      "Some ''web''" "Some ''i-123''"
      "inst ''i-123'' ''running'' None [vol ''v-1'' [], vol ''v-2'' [snap ''s-1'' ''pending'']]"
      "vol ''v-2'' [snap ''s-1'' ''pending'']"
      "''Created by SnapshotAlyzer 3000''" False "[]"]
  by (simp add: sample_defs create_snapshots_def filter_instances_def describe_instances_def
      matches_filter_def snapshot_instance_def snapshot_volume_def has_pending_snapshot_def
      run_defs seq_def try_except_ClientError_def)

lemma concat_map_filter:
  "concat (map (\<lambda>x. map f (filter P (g x))) xs) = map f (filter P (concat (map g xs)))"
  by (induction xs) simp_all

text \<open>
  C5. In a run of \<^verbatim>\<open>instances snapshot\<close>, a start request is only ever issued for a
  selected instance whose state, as listed before its stop request, was
  \<^verbatim>\<open>running\<close>; in a run that returns, the start requests are exactly those
  instances, in order. For one instance whose stop and wait succeed and whose volume loop
  ends, the requests are: stop, wait until stopped, the volumes, and then, exactly when
  the state read before the stop was \<^verbatim>\<open>running\<close>, start followed by wait until
  running (the wait is skipped only when start itself raises).
\<close>

theorem start_only_if_it_was_running:
  "(Call (Start x) \<in> set (fst (create_snapshots e project force instance)) \<longrightarrow>
      (\<exists>i \<in> set (describe_instances e (filter_instances project instance)).
         inst_id i = x \<and> state_name i = ''running'')) \<and>
   (snd (create_snapshots e project force instance) = None \<longrightarrow>
      started (fst (create_snapshots e project force instance))
        = map inst_id (filter (\<lambda>i. state_name i = ''running'')
            (describe_instances e (filter_instances project instance)))) \<and>
   (stop_error e (inst_id i) = None \<and> wait_until_stopped_error e (inst_id i) = None \<and>
    snd (for_each (snapshot_volume e) (inst_volumes i)) = None \<longrightarrow>
      fst (snapshot_instance e i) =
        [Print (''Stopping '' @ inst_id i), Call (Stop (inst_id i)),
         Call (Wait_until_stopped (inst_id i)), Call (Describe_volumes (inst_id i))]
        @ fst (for_each (snapshot_volume e) (inst_volumes i))
        @ (if state_name i = ''running''
           then Print (''Starting '' @ inst_id i) # Call (Start (inst_id i))
             # (if start_error e (inst_id i) = None
                then [Call (Wait_until_running (inst_id i))] else [])
           else []))"
proof -
  let ?sel = "describe_instances e (filter_instances project instance)"
  have "started (fst (create_snapshots e project force instance))
      = map inst_id (filter (\<lambda>i. state_name i = ''running'') ?sel)"
    if fin: "snd (create_snapshots e project force instance) = None"
  proof -
    have pass: "truthy project \<or> force"
      using fin by (cases "truthy project \<or> force") (simp_all add: create_snapshots_def raise_def)
    have loop: "snd (for_each (snapshot_instance e) ?sel) = None"
      using fin unfolding create_snapshots_passed [OF pass] by (simp add: seq_completed)
    then have each: "\<forall>i \<in> set ?sel. snd (snapshot_instance e i) = None"
      by (simp add: for_each_completed)
    have "started (fst (for_each (snapshot_instance e) ?sel))
        = concat (map (\<lambda>i. started (fst (snapshot_instance e i))) ?sel)"
      by (simp add: for_each_trace [OF loop] started_concat comp_def)
    also have "\<dots> = concat (map (\<lambda>i. if state_name i = ''running'' then [inst_id i] else []) ?sel)"
      using each by (intro arg_cong [where f = concat] map_cong) (simp_all add: snapshot_instance_started)
    also have "\<dots> = map inst_id (filter (\<lambda>i. state_name i = ''running'') ?sel)"
      by (rule concat_singletons_pos)
    finally show ?thesis
      using loop unfolding create_snapshots_passed [OF pass]
      by (simp add: fst_seq listing_def py_print_def started_append)
  qed
  then show ?thesis
    using create_snapshots_start_event [of x e project force "instance"]
      snapshot_instance_reached [of e i]
    by blast
qed

text \<open>
  Two instances, the first stopped and the second running: only the second is started
  again.
\<close>

theorem start_only_if_it_was_running_witness:
  "create_snapshots
      (quiet [inst ''i-1'' ''stopped'' None [vol ''v-1'' []],
              inst ''i-2'' ''running'' None [vol ''v-2'' []]]) None True None
     = ([Call (Describe_instances Instances_all),
         Print ''Stopping i-1'', Call (Stop ''i-1''), Call (Wait_until_stopped ''i-1''),
         Call (Describe_volumes ''i-1''), Call (Describe_snapshots ''v-1''),
         Print ''Creating snapshot of v-1'',
         Call (Create_snapshot ''v-1'' ''Created by SnapshotAlyzer 3000''),
         Print ''Stopping i-2'', Call (Stop ''i-2''), Call (Wait_until_stopped ''i-2''),
         Call (Describe_volumes ''i-2''), Call (Describe_snapshots ''v-2''),
         Print ''Creating snapshot of v-2'',
         Call (Create_snapshot ''v-2'' ''Created by SnapshotAlyzer 3000''),
         Print ''Starting i-2'', Call (Start ''i-2''), Call (Wait_until_running ''i-2''),
         Print ''Job's done!''], None) \<and>
   started (fst (create_snapshots
      (quiet [inst ''i-1'' ''stopped'' None [vol ''v-1'' []],
              inst ''i-2'' ''running'' None [vol ''v-2'' []]]) None True None)) = [''i-2'']"
  using start_only_if_it_was_running [of "''i-1''"
      "quiet [inst ''i-1'' ''stopped'' None [vol ''v-1'' []],
              inst ''i-2'' ''running'' None [vol ''v-2'' []]]" None True None
      "inst ''i-2'' ''running'' None [vol ''v-2'' []]"]
  by (simp add: sample_defs create_snapshots_def filter_instances_def describe_instances_def
      snapshot_instance_def snapshot_volume_def has_pending_snapshot_def
      run_defs seq_def try_except_ClientError_def)

text \<open>
  C6. Suppose the only way \<^verbatim>\<open>create_snapshot\<close> fails is with a client error. Then
  the volume loop of an instance always runs to its end, it requests a snapshot of every
  volume the guard does not skip, in order, whichever of them fail, and it prints the
  failure of each volume that failed. When in addition the stop, start and wait requests
  of the selected instances succeed, the whole run returns and has requested a snapshot
  of every unguarded volume of every selected instance: a failed volume stops neither
  the volumes after it nor the instances after its own.
\<close>

theorem create_snapshot_failure_is_local:
  assumes "\<forall>x err. create_snapshot_error e x = Some err \<longrightarrow> (\<exists>m. err = ClientError m)"
  shows "snd (for_each (snapshot_volume e) vs) = None \<and>
    created (fst (for_each (snapshot_volume e) vs))
      = map vol_id (filter (\<lambda>v. \<not> truth (has_pending_snapshot v)) vs) \<and>
    (v \<in> set vs \<and> \<not> truth (has_pending_snapshot v) \<and>
     create_snapshot_error e (vol_id v) = Some (ClientError m) \<longrightarrow>
       Print ('' Could not snapshot '' @ vol_id v @ ''. '' @ m)
         \<in> set (fst (for_each (snapshot_volume e) vs))) \<and>
    ((truthy project \<or> force) \<and>
     (\<forall>i \<in> set (describe_instances e (filter_instances project instance)).
        stop_error e (inst_id i) = None \<and> wait_until_stopped_error e (inst_id i) = None \<and>
        start_error e (inst_id i) = None \<and> wait_until_running_error e (inst_id i) = None) \<longrightarrow>
       snd (create_snapshots e project force instance) = None \<and>
       created (fst (create_snapshots e project force instance))
         = map vol_id (filter (\<lambda>v. \<not> truth (has_pending_snapshot v))
             (concat (map inst_volumes
                (describe_instances e (filter_instances project instance))))))"
proof -
  let ?sel = "describe_instances e (filter_instances project instance)"
  let ?free = "\<lambda>v. \<not> truth (has_pending_snapshot v)"
  note vols = snapshot_volumes_client_errors [OF assms, of vs]
  have report: "Print ('' Could not snapshot '' @ vol_id v @ ''. '' @ m)
         \<in> set (fst (for_each (snapshot_volume e) vs))"
    if "v \<in> set vs \<and> \<not> truth (has_pending_snapshot v) \<and>
     create_snapshot_error e (vol_id v) = Some (ClientError m)"
    using that snapshot_volumes_report [OF assms, of v vs m] by blast
  have whole: "snd (create_snapshots e project force instance) = None \<and>
       created (fst (create_snapshots e project force instance))
         = map vol_id (filter ?free (concat (map inst_volumes ?sel)))"
    if pass: "truthy project \<or> force"
      and calm: "\<forall>i \<in> set ?sel.
        stop_error e (inst_id i) = None \<and> wait_until_stopped_error e (inst_id i) = None \<and>
        start_error e (inst_id i) = None \<and> wait_until_running_error e (inst_id i) = None"
  proof -
    have each: "snd (snapshot_instance e i) = None \<and>
        created (fst (snapshot_instance e i)) = map vol_id (filter ?free (inst_volumes i))"
      if "i \<in> set ?sel" for i
    proof -
      from that calm have c1: "stop_error e (inst_id i) = None"
        and c2: "wait_until_stopped_error e (inst_id i) = None"
        and c3: "start_error e (inst_id i) = None"
        and c4: "wait_until_running_error e (inst_id i) = None"
        by auto
      show ?thesis using snapshot_instance_quiet_service [OF c1 c2 c3 c4 assms] by simp
    qed
    then have loop: "snd (for_each (snapshot_instance e) ?sel) = None"
      by (simp add: for_each_completed)
    have "created (fst (for_each (snapshot_instance e) ?sel))
        = concat (map (\<lambda>i. created (fst (snapshot_instance e i))) ?sel)"
      by (simp add: for_each_trace [OF loop] created_concat comp_def)
    also have "\<dots> = concat (map (\<lambda>i. map vol_id (filter ?free (inst_volumes i))) ?sel)"
      using each by (intro arg_cong [where f = concat] map_cong) simp_all
    also have "\<dots> = map vol_id (filter ?free (concat (map inst_volumes ?sel)))"
      by (rule concat_map_filter)
    finally show ?thesis
      using loop unfolding create_snapshots_passed [OF pass]
      by (simp add: fst_seq seq_completed listing_def py_print_def created_append)
  qed
  show ?thesis using vols report whole by blast
qed

text \<open>
  The first volume of the first instance fails: the second volume and the second
  instance are still snapshotted.
\<close>

theorem create_snapshot_failure_is_local_witness:
  "create_snapshots
      (create_snapshot_fails ''v-1'' ''boom''
         [inst ''i-1'' ''running'' None [vol ''v-1'' [], vol ''v-2'' []],
          inst ''i-2'' ''stopped'' None [vol ''v-3'' []]]) None True None
     = ([Call (Describe_instances Instances_all),
         Print ''Stopping i-1'', Call (Stop ''i-1''), Call (Wait_until_stopped ''i-1''),
         Call (Describe_volumes ''i-1''),
         Call (Describe_snapshots ''v-1''), Print ''Creating snapshot of v-1'',
         Call (Create_snapshot ''v-1'' ''Created by SnapshotAlyzer 3000''),
         Print '' Could not snapshot v-1. boom'',
         Call (Describe_snapshots ''v-2''), Print ''Creating snapshot of v-2'',
         Call (Create_snapshot ''v-2'' ''Created by SnapshotAlyzer 3000''),
         Print ''Starting i-1'', Call (Start ''i-1''), Call (Wait_until_running ''i-1''),
         Print ''Stopping i-2'', Call (Stop ''i-2''), Call (Wait_until_stopped ''i-2''),
         Call (Describe_volumes ''i-2''),
         Call (Describe_snapshots ''v-3''), Print ''Creating snapshot of v-3'',
         Call (Create_snapshot ''v-3'' ''Created by SnapshotAlyzer 3000''),
         Print ''Job's done!''], None) \<and>
   created (fst (create_snapshots
      (create_snapshot_fails ''v-1'' ''boom''
         [inst ''i-1'' ''running'' None [vol ''v-1'' [], vol ''v-2'' []],
          inst ''i-2'' ''stopped'' None [vol ''v-3'' []]]) None True None))
     = [''v-1'', ''v-2'', ''v-3'']"
  using create_snapshot_failure_is_local [of
      "create_snapshot_fails ''v-1'' ''boom''
         [inst ''i-1'' ''running'' None [vol ''v-1'' [], vol ''v-2'' []],
          inst ''i-2'' ''stopped'' None [vol ''v-3'' []]]"
      "[vol ''v-1'' [], vol ''v-2'' []]" "vol ''v-1'' []" "''boom''" None True None]
  by (simp add: sample_defs create_snapshots_def filter_instances_def describe_instances_def
      snapshot_instance_def snapshot_volume_def has_pending_snapshot_def
      run_defs seq_def try_except_ClientError_def)

text \<open>
  C2 does not hold of \<^verbatim>\<open>create_snapshots\<close>: its \<^verbatim>\<open>i.stop()\<close> and
  \<^verbatim>\<open>i.start()\<close> stand outside any \<^verbatim>\<open>try\<close>. With two running instances and a
  client error on the stop of the first, the run ends in that error right after the stop
  request: nothing is reported and the second instance is never reached. With the error
  on the start of the first, the run ends there, the first instance is left stopped and
  the second is again never reached. \<^verbatim>\<open>stop_instances\<close>, on the same service,
  reports the error and goes on to the second instance.
\<close>

theorem create_snapshots_aborts_when_stop_or_start_fails:
  "create_snapshots
      (stop_fails ''i-1'' ''boom''
         [inst ''i-1'' ''running'' None [vol ''v-1'' []],
          inst ''i-2'' ''running'' None [vol ''v-2'' []]]) None True None
     = ([Call (Describe_instances Instances_all),
         Print ''Stopping i-1'', Call (Stop ''i-1'')],
        Some (Botocore (ClientError ''boom''))) \<and>
   create_snapshots
      (start_fails ''i-1'' ''boom''
         [inst ''i-1'' ''running'' None [vol ''v-1'' []],
          inst ''i-2'' ''running'' None [vol ''v-2'' []]]) None True None
     = ([Call (Describe_instances Instances_all),
         Print ''Stopping i-1'', Call (Stop ''i-1''), Call (Wait_until_stopped ''i-1''),
         Call (Describe_volumes ''i-1''),
         Call (Describe_snapshots ''v-1''), Print ''Creating snapshot of v-1'',
         Call (Create_snapshot ''v-1'' ''Created by SnapshotAlyzer 3000''),
         Print ''Starting i-1'', Call (Start ''i-1'')],
        Some (Botocore (ClientError ''boom''))) \<and>
   stop_instances
      (stop_fails ''i-1'' ''boom''
         [inst ''i-1'' ''running'' None [vol ''v-1'' []],
          inst ''i-2'' ''running'' None [vol ''v-2'' []]]) None True None
     = ([Call (Describe_instances Instances_all),
         Print ''Stopping i-1..'', Call (Stop ''i-1''), Print '' Could not stop i-1. boom'',
         Print ''Stopping i-2..'', Call (Stop ''i-2'')], None)"
  by (simp add: sample_defs create_snapshots_def stop_instances_def filter_instances_def
      describe_instances_def snapshot_instance_def snapshot_volume_def
      has_pending_snapshot_def run_defs seq_def try_except_ClientError_def)

end
